theory Spec2Isabelle
  imports Main "HOL-Library.AList"
begin

section \<open>Data model\<close>

text \<open>
  \<open>ImageMetadata\<close> of \<open>types/image.ts\<close>. The field \<open>id\<close> is written \<open>id'\<close> (HOL has a
  constant \<open>id\<close>); \<open>created_at\<close> holds the value \<open>new Date(created_at).getTime()\<close>, the only
  way the code reads it.
\<close>

record ImageMetadata =
  id' :: string
  workflow_id :: string
  workflow_name :: string
  prompt :: string
  prompt_id :: string
  created_at :: int

text \<open>
  An exception of the JavaScript runtime: reading a property of \<open>undefined\<close>.
\<close>

datatype error = TypeError

section \<open>Selection model: \<open>useImageSelection\<close>\<close>

record selection =
  selectedIds :: "string set"
  lastClickedIndex :: "int option"

text \<open>\<open>Array.prototype.findIndex\<close>: the first index whose element satisfies the predicate, else \<open>-1\<close>.\<close>

fun findIndex :: "('a \<Rightarrow> bool) \<Rightarrow> 'a list \<Rightarrow> int" where
  "findIndex p [] = -1"
| "findIndex p (x # xs) =
     (if p x then 0 else (let r = findIndex p xs in if r < 0 then -1 else r + 1))"

text \<open>
  \<open>images[i].id\<close>: an index outside \<open>0 .. length - 1\<close> (also a negative one) reads
  \<open>undefined\<close>, and \<open>.id\<close> of it throws.
\<close>

definition image_id_at :: "ImageMetadata list \<Rightarrow> int \<Rightarrow> error + string" where
  "image_id_at images i =
     (if 0 \<le> i \<and> i < int (length images) then Inr (id' (images ! nat i)) else Inl TypeError)"

text \<open>The loop \<open>for (let i = start; i <= end; i++) newSet.add(images[i].id)\<close>.\<close>

function rangeLoop :: "ImageMetadata list \<Rightarrow> int \<Rightarrow> int \<Rightarrow> string set \<Rightarrow> error + string set" where
  "rangeLoop images i end' newSet =
     (if i \<le> end'
      then (case image_id_at images i of
              Inl e \<Rightarrow> Inl e
            | Inr x \<Rightarrow> rangeLoop images (i + 1) end' (insert x newSet))
      else Inr newSet)"
  by pat_completeness auto
termination
  by (relation "measure (\<lambda>(images, i, end', newSet). nat (end' + 1 - i))") auto

declare rangeLoop.simps [simp del]

text \<open>
  \<open>toggleSelection(imageId, event)\<close>; \<open>shiftKey\<close> is \<open>event.shiftKey\<close>. An exception thrown
  inside the state updater leaves no new state: the result is \<open>Inl\<close>.
\<close>

definition toggleSelection ::
  "ImageMetadata list \<Rightarrow> string \<Rightarrow> bool \<Rightarrow> selection \<Rightarrow> error + selection" where
  "toggleSelection images imageId shiftKey s =
     (let clickedIndex = findIndex (\<lambda>img. id' img = imageId) images in
      if shiftKey then
        (case lastClickedIndex s of
           Some prevLastIndex \<Rightarrow>
             (let start = min prevLastIndex clickedIndex;
                  end' = max prevLastIndex clickedIndex
              in case rangeLoop images start end' (selectedIds s) of
                   Inl e \<Rightarrow> Inl e
                 | Inr newSet \<Rightarrow>
                     Inr (s\<lparr>selectedIds := newSet, lastClickedIndex := Some clickedIndex\<rparr>))
         | None \<Rightarrow> Inr (s\<lparr>lastClickedIndex := Some clickedIndex\<rparr>))
      else
        Inr (s\<lparr>selectedIds :=
                 (if imageId \<in> selectedIds s then selectedIds s - {imageId}
                  else insert imageId (selectedIds s)),
               lastClickedIndex := Some clickedIndex\<rparr>))"

definition selectAll :: "ImageMetadata list \<Rightarrow> selection \<Rightarrow> selection" where
  "selectAll images s = s\<lparr>selectedIds := set (map id' images)\<rparr>"

definition clearSelection :: "selection \<Rightarrow> selection" where
  "clearSelection s = s\<lparr>selectedIds := {}, lastClickedIndex := None\<rparr>"


section \<open>Job placeholders and the application state\<close>

text \<open>
  A value of a parameter override, as \<open>JSON.parse\<close> can return it (\<open>JUndefined\<close> is
  what a missing property reads as).
\<close>

datatype jsvalue = JUndefined | JNull | JBool bool | JNum int | JStr string

type_synonym overrides = "(string \<times> jsvalue) list"

text \<open>
  The records of \<open>generatingImages\<close>: the fields the two launchers write
  (\<open>id\<close>, \<open>prompt\<close>, \<open>workflow_id\<close>, \<open>workflow_name\<close>, \<open>status\<close>, \<open>progress\<close>,
  \<open>override_params\<close>, \<open>timestamp\<close>) and \<open>imageData\<close>, set at completion. A missing
  property is \<open>None\<close>.
\<close>

record GeneratingImage =
  gen_id :: string
  gen_prompt :: string
  gen_workflow_id :: string
  gen_workflow_name :: string
  status :: string
  progress :: "int option"
  override_params :: "overrides option"
  timestamp :: "int option"
  imageData :: "ImageMetadata option"

text \<open>A request of the client to the backend, kept in a log.\<close>

datatype request = ListImages nat nat

text \<open>
  The state of \<open>AppContent\<close> that the job tracking touches. \<open>timers\<close> holds the pending
  \<open>setTimeout\<close> callbacks, each of which removes the placeholder of one id: the delay and
  the id.
\<close>

record app =
  generatingImages :: "GeneratingImage list"
  images :: "ImageMetadata list"
  error :: "string option"
  timers :: "(nat \<times> string) list"
  requests :: "request list"

text \<open>\<open>ProgressUpdate\<close> of \<open>types/generation.ts\<close>, the \<open>data\<close> of a progress message.\<close>

record ProgressUpdate =
  p_status :: "string option"
  progress_percent :: "int option"
  p_error :: "string option"

text \<open>\<open>a || b\<close> on strings and on numbers: the empty string and \<open>0\<close> are falsy.\<close>

definition or_string :: "string option \<Rightarrow> string \<Rightarrow> string" where
  "or_string a b = (case a of None \<Rightarrow> b | Some x \<Rightarrow> if x = [] then b else x)"

definition or_number :: "int option \<Rightarrow> int option \<Rightarrow> int option" where
  "or_number a b = (case a of None \<Rightarrow> b | Some x \<Rightarrow> if x = 0 then b else Some x)"

definition removeGenerating :: "string \<Rightarrow> app \<Rightarrow> app" where
  "removeGenerating promptId s =
     s\<lparr>generatingImages := filter (\<lambda>img. gen_id img \<noteq> promptId) (generatingImages s)\<rparr>"

text \<open>A pending timer fires: it leaves the list of timers and removes its placeholder.\<close>

definition timer_fire :: "nat \<times> string \<Rightarrow> app \<Rightarrow> app" where
  "timer_fire t s = removeGenerating (snd t) (s\<lparr>timers := remove1 t (timers s)\<rparr>)"

definition onProgress :: "string \<Rightarrow> ProgressUpdate \<Rightarrow> app \<Rightarrow> app" where
  "onProgress promptId data s =
     s\<lparr>generatingImages :=
         map (\<lambda>img. if gen_id img = promptId
                     then img\<lparr>status := or_string (p_status data) (status img),
                              progress := or_number (progress_percent data) (progress img)\<rparr>
                     else img)
             (generatingImages s)\<rparr>"

text \<open>
  \<open>onComplete\<close>: the call \<open>imageService.list({page: 1, page_size: 50})\<close>, and what runs
  when it returns. The answer is \<open>Inr\<close> of the page, or \<open>Inl\<close> when the call throws.
\<close>

definition notFoundMessage :: string where
  "notFoundMessage = ''Failed to retrieve generated image. Please check your images list.''"

definition sortByCreatedAt :: "ImageMetadata list \<Rightarrow> ImageMetadata list" where
  "sortByCreatedAt xs = sort_key (\<lambda>img. - created_at img) xs"

definition onComplete_start :: "app \<Rightarrow> app" where
  "onComplete_start s = s\<lparr>requests := requests s @ [ListImages 1 50]\<rparr>"

definition onComplete_resume :: "string \<Rightarrow> string + ImageMetadata list \<Rightarrow> app \<Rightarrow> app" where
  "onComplete_resume promptId answer s =
     (case answer of
        Inr newImages \<Rightarrow>
          (case find (\<lambda>img. prompt_id img = promptId) newImages of
             Some newImage \<Rightarrow>
               s\<lparr>generatingImages :=
                    map (\<lambda>img. if gen_id img = promptId
                                then img\<lparr>status := ''completed'', imageData := Some newImage\<rparr>
                                else img)
                        (generatingImages s),
                  images := sortByCreatedAt (newImage # images s),
                  timers := timers s @ [(5000, promptId)]\<rparr>
           | None \<Rightarrow>
               s\<lparr>generatingImages :=
                    map (\<lambda>img. if gen_id img = promptId then img\<lparr>status := ''failed''\<rparr> else img)
                        (generatingImages s),
                  error := Some notFoundMessage,
                  timers := timers s @ [(3000, promptId)]\<rparr>)
      | Inl err \<Rightarrow> removeGenerating promptId s)"

definition onComplete :: "string \<Rightarrow> string + ImageMetadata list \<Rightarrow> app \<Rightarrow> app" where
  "onComplete promptId answer s = onComplete_resume promptId answer (onComplete_start s)"

definition onError :: "string \<Rightarrow> string \<Rightarrow> app \<Rightarrow> app" where
  "onError promptId err s =
     s\<lparr>generatingImages :=
          map (\<lambda>img. if gen_id img = promptId then img\<lparr>status := ''failed''\<rparr> else img)
              (generatingImages s),
        error := Some (''Generation failed: '' @ err),
        timers := timers s @ [(2000, promptId)]\<rparr>"

text \<open>
  The banner of \<open>AppContent\<close>, \<open>{error && <div className="error-banner">{error}...}\<close>:
  nothing is shown for \<open>null\<close> and for the empty string, else the text of \<open>error\<close>.
\<close>

definition errorBanner :: "app \<Rightarrow> string option" where
  "errorBanner s = (case error s of None \<Rightarrow> None | Some e \<Rightarrow> if e = [] then None else Some e)"

section \<open>The grid: \<open>ImageGrid\<close>\<close>

text \<open>\<open>filteredImages\<close>: the history without what a completed placeholder already shows.\<close>

definition filteredImages :: "GeneratingImage list \<Rightarrow> ImageMetadata list \<Rightarrow> ImageMetadata list" where
  "filteredImages generating completedImages =
     filter (\<lambda>img. \<not> list_ex (\<lambda>genImg. status genImg = ''completed'' \<and>
                                (case imageData genImg of
                                   None \<Rightarrow> False
                                 | Some d \<Rightarrow> id' d = id' img)) generating)
            completedImages"

text \<open>
  The ids of the image cards in the order the grid renders them: a placeholder that is
  completed and has image data is a card of that image, any other placeholder is a
  loading card (no image id); then the cards of \<open>filteredImages\<close>.
\<close>

definition placeholderCards :: "GeneratingImage list \<Rightarrow> string list" where
  "placeholderCards generating =
     concat (map (\<lambda>img. case imageData img of
                          Some d \<Rightarrow> if status img = ''completed'' then [id' d] else []
                        | None \<Rightarrow> []) generating)"

definition visibleImageIds :: "GeneratingImage list \<Rightarrow> ImageMetadata list \<Rightarrow> string list" where
  "visibleImageIds generating completedImages =
     placeholderCards generating @ map id' (filteredImages generating completedImages)"

section \<open>Progress channels: \<open>useWebSocketManager\<close>\<close>

text \<open>
  A \<open>WebSocket\<close> object of the browser with what the closure of \<open>connect\<close> captured. Its
  \<open>readyState\<close> follows the WebSocket interface: a new socket is \<open>CONNECTING\<close>, the
  \<open>open\<close> event makes it \<open>OPEN\<close>, \<open>close()\<close> makes a connecting or open socket
  \<open>CLOSING\<close> and returns, and the \<open>close\<close> event, delivered later by the event loop,
  makes it \<open>CLOSED\<close> and runs \<open>onclose\<close>.
\<close>

datatype readyState = CONNECTING | OPEN | CLOSING | CLOSED

record WebSocket =
  ws_promptId :: string
  ws_workflowId :: string
  ws_prompt :: string
  ws_overrideParams :: "overrides option"
  readyState :: readyState

text \<open>
  The manager: every socket it has created (a socket is named by its position) and
  \<open>wsMapRef.current\<close>, the map from prompt ids to sockets.
\<close>

record manager =
  sockets :: "WebSocket list"
  wsMap :: "(string \<times> nat) list"

definition manager_init :: manager where
  "manager_init = \<lparr>sockets = [], wsMap = []\<rparr>"

definition ws_close :: "nat \<Rightarrow> manager \<Rightarrow> manager" where
  "ws_close h m =
     (if h < length (sockets m) \<and> readyState (sockets m ! h) \<in> {CONNECTING, OPEN}
      then m\<lparr>sockets := (sockets m)[h := (sockets m ! h)\<lparr>readyState := CLOSING\<rparr>]\<rparr>
      else m)"

definition connect :: "string \<Rightarrow> string \<Rightarrow> string \<Rightarrow> overrides option \<Rightarrow> manager \<Rightarrow> manager" where
  "connect promptId workflowId prompt' overrideParams m =
     (let m1 = (case map_of (wsMap m) promptId of
                  Some existingWs \<Rightarrow>
                    if existingWs < length (sockets m) \<and> readyState (sockets m ! existingWs) = OPEN
                    then ws_close existingWs m else m
                | None \<Rightarrow> m);
          ws = length (sockets m1)
      in m1\<lparr>sockets := sockets m1 @
                 [\<lparr>ws_promptId = promptId, ws_workflowId = workflowId, ws_prompt = prompt',
                   ws_overrideParams = overrideParams, readyState = CONNECTING\<rparr>],
             wsMap := AList.update promptId ws (wsMap m1)\<rparr>)"

text \<open>
  The \<open>monitor\<close> message that \<open>onopen\<close> sends on a socket, 100 ms after the \<open>auth\<close>
  message.
\<close>

record MonitorMessage =
  mon_prompt_id :: string
  mon_workflow_id :: string
  mon_prompt :: string
  mon_save_to_disk :: bool
  mon_override_params :: "overrides option"

definition monitorMessage :: "WebSocket \<Rightarrow> MonitorMessage" where
  "monitorMessage ws =
     \<lparr>mon_prompt_id = ws_promptId ws, mon_workflow_id = ws_workflowId ws,
      mon_prompt = ws_prompt ws, mon_save_to_disk = True,
      mon_override_params = ws_overrideParams ws\<rparr>"

definition disconnect :: "string \<Rightarrow> manager \<Rightarrow> manager" where
  "disconnect promptId m =
     (case map_of (wsMap m) promptId of
        Some ws \<Rightarrow> (ws_close ws m)\<lparr>wsMap := AList.delete promptId (wsMap m)\<rparr>
      | None \<Rightarrow> m)"

definition disconnectAll :: "manager \<Rightarrow> manager" where
  "disconnectAll m = (fold (\<lambda>(promptId, ws). ws_close ws) (wsMap m) m)\<lparr>wsMap := []\<rparr>"

text \<open>The \<open>open\<close> event of a socket (\<open>onopen\<close> only sends) and its \<open>close\<close> event with \<open>onclose\<close>.\<close>

definition ws_open_event :: "nat \<Rightarrow> manager \<Rightarrow> manager" where
  "ws_open_event h m =
     (if h < length (sockets m) \<and> readyState (sockets m ! h) = CONNECTING
      then m\<lparr>sockets := (sockets m)[h := (sockets m ! h)\<lparr>readyState := OPEN\<rparr>]\<rparr>
      else m)"

definition ws_close_event :: "nat \<Rightarrow> manager \<Rightarrow> manager" where
  "ws_close_event h m =
     (if h < length (sockets m) \<and> readyState (sockets m ! h) \<noteq> CLOSED
      then m\<lparr>sockets := (sockets m)[h := (sockets m ! h)\<lparr>readyState := CLOSED\<rparr>],
             wsMap := AList.delete (ws_promptId (sockets m ! h)) (wsMap m)\<rparr>
      else m)"

datatype manager_event =
  Connect string string string "overrides option"
| Disconnect string
| DisconnectAll
| OpenEvent nat
| CloseEvent nat

fun manager_step :: "manager_event \<Rightarrow> manager \<Rightarrow> manager" where
  "manager_step (Connect promptId workflowId prompt' overrideParams) m =
     connect promptId workflowId prompt' overrideParams m"
| "manager_step (Disconnect promptId) m = disconnect promptId m"
| "manager_step DisconnectAll m = disconnectAll m"
| "manager_step (OpenEvent h) m = ws_open_event h m"
| "manager_step (CloseEvent h) m = ws_close_event h m"

definition manager_run :: "manager_event list \<Rightarrow> manager \<Rightarrow> manager" where
  "manager_run evs m = fold manager_step evs m"

text \<open>The live channels of a job: its sockets that are connecting or open.\<close>

definition liveChannels :: "string \<Rightarrow> manager \<Rightarrow> nat list" where
  "liveChannels promptId m =
     filter (\<lambda>h. ws_promptId (sockets m ! h) = promptId \<and>
                 readyState (sockets m ! h) \<in> {CONNECTING, OPEN})
            [0..<length (sockets m)]"

definition openChannels :: "string \<Rightarrow> manager \<Rightarrow> nat list" where
  "openChannels promptId m =
     filter (\<lambda>h. ws_promptId (sockets m ! h) = promptId \<and> readyState (sockets m ! h) = OPEN)
            [0..<length (sockets m)]"

subsection \<open>Inbound messages\<close>

text \<open>
  What \<open>JSON.parse(event.data)\<close> returns, as far as the handler looks at it: a message
  of type \<open>progress\<close> with its \<open>data\<close> (\<open>None\<close> when \<open>data\<close> is missing or falsy), a
  message of type \<open>error\<close> with \<open>data?.error\<close>, the value \<open>null\<close> (the payload
  \<open>null\<close> parses, and the read of \<open>message.type\<close> throws after the message has been
  logged), or anything else. The parser is a parameter; \<open>None\<close> is a payload on which
  \<open>JSON.parse\<close> throws.
\<close>

datatype message =
  ProgressMessage "ProgressUpdate option"
| ErrorMessage "string option"
| NullMessage
| OtherMessage

datatype callback =
  OnProgress string ProgressUpdate
| OnComplete string ProgressUpdate
| OnError string string

datatype console_entry = ConsoleLog | ConsoleError

text \<open>
  \<open>ws.onmessage\<close>: the callbacks it invokes, in order, and what it writes to the console.
\<close>

definition ws_onmessage ::
  "(string \<Rightarrow> message option) \<Rightarrow> string \<Rightarrow> string \<Rightarrow> callback list \<times> console_entry list" where
  "ws_onmessage JSON_parse promptId event_data =
     (case JSON_parse event_data of
        None \<Rightarrow> ([], [ConsoleError])
      | Some (ProgressMessage (Some data)) \<Rightarrow>
          (if p_status data = Some ''completed''
           then ([OnProgress promptId data, OnComplete promptId data], [ConsoleLog, ConsoleLog])
           else if p_status data = Some ''error''
           then ([OnProgress promptId data,
                  OnError promptId (or_string (p_error data) ''Unknown error'')],
                 [ConsoleLog, ConsoleError])
           else ([OnProgress promptId data], [ConsoleLog]))
      | Some (ProgressMessage None) \<Rightarrow> ([], [ConsoleLog])
      | Some (ErrorMessage err) \<Rightarrow>
          ([OnError promptId (or_string err ''Unknown error'')], [ConsoleLog, ConsoleError])
      | Some NullMessage \<Rightarrow> ([], [ConsoleLog, ConsoleError])
      | Some OtherMessage \<Rightarrow> ([], [ConsoleLog]))"

text \<open>
  The callbacks as \<open>AppContent\<close> passes them to the manager. \<open>answer\<close> is what the history
  fetch of \<open>onComplete\<close> returns.
\<close>

fun run_callback :: "string + ImageMetadata list \<Rightarrow> callback \<Rightarrow> app \<Rightarrow> app" where
  "run_callback answer (OnProgress promptId data) s = onProgress promptId data s"
| "run_callback answer (OnComplete promptId data) s = onComplete promptId answer s"
| "run_callback answer (OnError promptId err) s = onError promptId err s"

text \<open>
  The \<open>message\<close> event of socket \<open>h\<close>: the handler runs with the prompt id of its closure.
  It does not touch the socket or the map.
\<close>

definition ws_message_event ::
  "(string \<Rightarrow> message option) \<Rightarrow> string + ImageMetadata list \<Rightarrow> nat \<Rightarrow> string \<Rightarrow>
   manager \<times> app \<Rightarrow> manager \<times> app" where
  "ws_message_event JSON_parse answer h event_data st =
     (case st of (m, s) \<Rightarrow>
        if h < length (sockets m)
        then (m, fold (run_callback answer)
                      (fst (ws_onmessage JSON_parse (ws_promptId (sockets m ! h)) event_data)) s)
        else (m, s))"

section \<open>Job launchers\<close>

subsection \<open>Parameter overrides\<close>

text \<open>
  The test \<open>value !== '' && value !== null && value !== undefined\<close>, the loop over
  \<open>Object.entries(workflowOverrides)\<close> that fills a new object \<open>overrideParams\<close> with
  it, and the test on \<open>Object.keys(overrideParams).length\<close>. An object
  is the list of its own entries. The assignment \<open>overrideParams[key] = value\<close> on the
  plain object adds or replaces the entry of \<open>key\<close>, except for the key \<open>__proto__\<close>:
  that assignment runs the setter of \<open>Object.prototype\<close> and creates no own property.
\<close>

definition assignProperty :: "string \<Rightarrow> jsvalue \<Rightarrow> overrides \<Rightarrow> overrides" where
  "assignProperty key v obj = (if key = ''__proto__'' then obj else AList.update key v obj)"

definition nonEmpty :: "jsvalue \<Rightarrow> bool" where
  "nonEmpty v = (v \<noteq> JStr [] \<and> v \<noteq> JNull \<and> v \<noteq> JUndefined)"

definition filterOverrides :: "overrides \<Rightarrow> overrides option" where
  "filterOverrides workflowOverrides =
     (let overrideParams =
            fold (\<lambda>(key, v) acc.
                    if nonEmpty v
                    then assignProperty key v acc else acc)
                 workflowOverrides []
      in if length overrideParams = 0 then None else Some overrideParams)"

text \<open>
  From \<open>localStorage.getItem('parameterOverrides')\<close> to \<open>overrideParams\<close>. The text is the
  same in \<open>useLocalGeneration.generate\<close> and in \<open>handleGenerate\<close>. The parser returns the
  stored \<open>ParameterOverrides\<close> object, or \<open>None\<close> when \<open>JSON.parse\<close> throws (caught,
  \<open>overrideParams\<close> stays \<open>null\<close>).
\<close>

definition loadOverrideParams ::
  "(string \<Rightarrow> (string \<times> overrides) list option) \<Rightarrow> string option \<Rightarrow> string \<Rightarrow> overrides option" where
  "loadOverrideParams JSON_parse savedOverrides workflowId =
     (case savedOverrides of
        None \<Rightarrow> None
      | Some saved \<Rightarrow>
          if saved = [] then None
          else (case JSON_parse saved of
                  None \<Rightarrow> None
                | Some allOverrides \<Rightarrow>
                    (case map_of allOverrides workflowId of
                       None \<Rightarrow> None
                     | Some workflowOverrides \<Rightarrow> filterOverrides workflowOverrides)))"

subsection \<open>Local backend: \<open>useLocalGeneration\<close>\<close>

record GenerationRequest =
  req_workflow_id :: string
  req_prompt :: string
  req_override_params :: "overrides option"
  save_to_disk :: bool
  image_filename :: "string option"

record GenerationResponse =
  res_prompt_id :: string
  res_workflow_id :: string
  res_status :: string
  res_message :: "string option"

record WorkflowConfig =
  wf_id :: string
  wf_name :: string

text \<open>The argument of \<open>generationService.generate\<close>.\<close>

definition localGenerate_request :: "overrides option \<Rightarrow> string \<Rightarrow> string \<Rightarrow> string option \<Rightarrow> GenerationRequest" where
  "localGenerate_request overrideParams workflowId prompt' uploadedImageFile =
     \<lparr>req_workflow_id = workflowId, req_prompt = prompt', req_override_params = overrideParams,
      save_to_disk = True,
      image_filename = (case uploadedImageFile of
                          None \<Rightarrow> None
                        | Some f \<Rightarrow> if f = [] then None else Some f)\<rparr>"

text \<open>A template literal prints a missing value as \<open>undefined\<close>.\<close>

definition template :: "string option \<Rightarrow> string" where
  "template x = (case x of None \<Rightarrow> ''undefined'' | Some t \<Rightarrow> t)"

text \<open>
  \<open>generate\<close> of \<open>useLocalGeneration\<close>, with \<open>onGenerationStart\<close> and \<open>onError\<close> as
  \<open>AppContent\<close> passes them. \<open>answer\<close> is what \<open>generationService.generate\<close> returns:
  \<open>Inr\<close> of the response, or \<open>Inl\<close> of \<open>err.message\<close> when the call throws. \<open>now\<close> is
  \<open>Date.now()\<close>. The result is the new state and the returned prompt id (\<open>None\<close> for
  \<open>null\<close>).
\<close>

definition localGenerate ::
  "WorkflowConfig list \<Rightarrow> int \<Rightarrow> overrides option \<Rightarrow> string \<Rightarrow> string \<Rightarrow>
   string option + GenerationResponse \<Rightarrow> app \<Rightarrow> app \<times> string option" where
  "localGenerate workflows now overrideParams workflowId prompt' answer s =
     (if workflowId = [] then (s\<lparr>error := Some ''Please select a workflow''\<rparr>, None)
      else
        (case answer of
           Inl err_message \<Rightarrow>
             (s\<lparr>error := Some (''Generation failed: '' @ template err_message)\<rparr>, None)
         | Inr response \<Rightarrow>
             if res_status response = ''failed''
             then (s\<lparr>error := Some (''Generation failed: '' @ template (res_message response))\<rparr>,
                   None)
             else
               (let workflowName =
                      (case find (\<lambda>w. wf_id w = workflowId) workflows of
                         None \<Rightarrow> ''Unknown''
                       | Some w \<Rightarrow> if wf_name w = [] then ''Unknown'' else wf_name w);
                    newGeneratingImage =
                      \<lparr>gen_id = res_prompt_id response, gen_prompt = prompt',
                       gen_workflow_id = workflowId, gen_workflow_name = workflowName,
                       status = ''queued'', progress = Some 0,
                       override_params = overrideParams, timestamp = Some now,
                       imageData = None\<rparr>
                in (s\<lparr>generatingImages := newGeneratingImage # generatingImages s\<rparr>,
                    Some (res_prompt_id response)))))"

subsection \<open>Remote backend: \<open>useGoogleAIGeneration\<close>\<close>




definition onGenerationStart :: "GeneratingImage \<Rightarrow> app \<Rightarrow> app" where
  "onGenerationStart generatingImage s =
     s\<lparr>generatingImages := generatingImage # generatingImages s\<rparr>"




section \<open>Resuming at cold start: \<open>loadGeneratingImages\<close>\<close>

text \<open>
  The filter of \<open>loadGeneratingImages\<close>; \<open>now\<close> is \<open>Date.now()\<close>. The test
  \<open>img.timestamp && img.timestamp < oneHourAgo\<close> is false for a missing timestamp and
  for the timestamp \<open>0\<close>.
\<close>

definition validImage :: "int \<Rightarrow> GeneratingImage \<Rightarrow> bool" where
  "validImage now img =
     (let oneHourAgo = now - 60 * 60 * 1000 in
      if status img = ''failed'' then False
      else if (case timestamp img of None \<Rightarrow> False | Some t \<Rightarrow> t \<noteq> 0 \<and> t < oneHourAgo)
      then False
      else True)"

text \<open>
  The body of \<open>validImages.forEach\<close>: a job that is \<open>processing\<close> or \<open>queued\<close> is
  connected again.
\<close>

definition resumable :: "GeneratingImage \<Rightarrow> bool" where
  "resumable img = (status img = ''processing'' \<or> status img = ''queued'')"

definition reconnect :: "GeneratingImage \<Rightarrow> manager \<Rightarrow> manager" where
  "reconnect img m =
     (if resumable img
      then connect (gen_id img) (gen_workflow_id img) (gen_prompt img) (override_params img) m
      else m)"

text \<open>The socket that \<open>connect\<close> creates for a persisted job.\<close>

definition socket_of :: "GeneratingImage \<Rightarrow> WebSocket" where
  "socket_of img =
     \<lparr>ws_promptId = gen_id img, ws_workflowId = gen_workflow_id img, ws_prompt = gen_prompt img,
      ws_overrideParams = override_params img, readyState = CONNECTING\<rparr>"

text \<open>
  A manager in which no socket has opened yet, as during the synchronous loop of a cold
  start: every socket is connecting and the map points at existing sockets.
\<close>

definition all_connecting :: "manager \<Rightarrow> bool" where
  "all_connecting m =
     (list_all (\<lambda>w. readyState w = CONNECTING) (sockets m) \<and>
      list_all (\<lambda>(promptId, ws). ws < length (sockets m)) (wsMap m))"

text \<open>
  \<open>saved\<close> is \<open>localStorage.getItem('generatingImages')\<close>; the parser returns the stored
  array, or \<open>None\<close> when \<open>JSON.parse\<close> throws (caught and logged, nothing else happens).
\<close>

definition loadGeneratingImages ::
  "(string \<Rightarrow> GeneratingImage list option) \<Rightarrow> int \<Rightarrow> string option \<Rightarrow>
   manager \<times> app \<Rightarrow> manager \<times> app" where
  "loadGeneratingImages JSON_parse now saved st =
     (case st of (m, s) \<Rightarrow>
        (case saved of
           None \<Rightarrow> (m, s)
         | Some item \<Rightarrow>
             if item = [] then (m, s)
             else (case JSON_parse item of
                     None \<Rightarrow> (m, s)
                   | Some parsed \<Rightarrow>
                       (let validImages = filter (validImage now) parsed
                        in (fold reconnect validImages m,
                            s\<lparr>generatingImages := validImages\<rparr>)))))"

section \<open>Submitting: \<open>handleGenerate\<close>\<close>

text \<open>
  The local branch of \<open>handleGenerate\<close> (with the English texts of \<open>locales/en.ts\<close>):
  \<open>generate\<close>, and for a returned prompt id the overrides are read again and the channel
  is opened.
\<close>

definition handleGenerate_local ::
  "(string \<Rightarrow> (string \<times> overrides) list option) \<Rightarrow> string option \<Rightarrow> WorkflowConfig list \<Rightarrow> int \<Rightarrow>
   string option \<Rightarrow> string \<Rightarrow> string option + GenerationResponse \<Rightarrow>
   manager \<times> app \<Rightarrow> manager \<times> app" where
  "handleGenerate_local JSON_parse savedOverrides workflows now selectedWorkflow prompt' answer st =
     (case st of (m, s) \<Rightarrow>
        (case selectedWorkflow of
           None \<Rightarrow> (m, s\<lparr>error := Some ''Generation failed: Please select a workflow''\<rparr>)
         | Some workflow \<Rightarrow>
             if workflow = [] then (m, s\<lparr>error := Some ''Generation failed: Please select a workflow''\<rparr>)
             else
               (case localGenerate workflows now (loadOverrideParams JSON_parse savedOverrides workflow)
                       workflow prompt' answer s of
                  (s', None) \<Rightarrow> (m, s')
                | (s', Some promptId) \<Rightarrow>
                    if promptId = [] then (m, s')
                    else (connect promptId workflow prompt'
                            (loadOverrideParams JSON_parse savedOverrides workflow) m, s'))))"

section \<open>Persistence: \<open>useLocalStorageSync\<close>\<close>

text \<open>
  \<open>localStorage\<close> is a map from keys to strings. The state of one use of the hook: the
  React state \<open>value\<close> (written \<open>val\<close>), the ref \<open>isInitialMount\<close>, and the pending
  debounce timer with the value its callback would save.
\<close>

type_synonym storage = "string \<rightharpoonup> string"

record 'a hook =
  val :: 'a
  isInitialMount :: bool
  debounceTimer :: "'a option"

text \<open>
  The initial state: the stored item, parsed (\<open>parse_item\<close> is \<open>JSON.parse\<close> with the
  item itself as the fallback), or \<open>initialValue\<close> when there is none.
\<close>

definition hook_init :: "(string \<Rightarrow> 'a) \<Rightarrow> string \<Rightarrow> 'a \<Rightarrow> storage \<Rightarrow> 'a hook" where
  "hook_init parse_item key initialValue localStorage =
     \<lparr>val = (case localStorage key of None \<Rightarrow> initialValue | Some item \<Rightarrow> parse_item item),
      isInitialMount = True, debounceTimer = None\<rparr>"

text \<open>\<open>setValue\<close> is the setter of \<open>useState\<close>: it changes the React state and nothing else.\<close>

definition setValue :: "'a \<Rightarrow> 'a hook \<Rightarrow> 'a hook" where
  "setValue v h = h\<lparr>val := v\<rparr>"

text \<open>
  \<open>saveToLocalStorage\<close>. \<open>serialize\<close> is \<open>typeof value === 'string' ? value :
  JSON.stringify(value)\<close>; \<open>setItem\<close> is \<open>localStorage.setItem\<close>, which returns the new
  storage or throws (\<open>None\<close>; the exception is caught and logged).
\<close>

definition saveToLocalStorage ::
  "('a \<Rightarrow> string) \<Rightarrow> (storage \<Rightarrow> string \<Rightarrow> string \<Rightarrow> storage option) \<Rightarrow> string \<Rightarrow> 'a \<Rightarrow>
   storage \<Rightarrow> storage" where
  "saveToLocalStorage serialize setItem key v localStorage =
     (case setItem localStorage key (serialize v) of
        None \<Rightarrow> localStorage
      | Some st \<Rightarrow> st)"

text \<open>
  The effect of the hook, which React runs after it has rendered with a changed \<open>value\<close>
  (after the mount too). The cleanup of the previous run has cleared a pending timer.
  \<open>debounce\<close> is \<open>options?.debounce\<close>; \<open>0\<close> is falsy.
\<close>

definition hook_effect ::
  "('a \<Rightarrow> string) \<Rightarrow> (storage \<Rightarrow> string \<Rightarrow> string \<Rightarrow> storage option) \<Rightarrow> string \<Rightarrow> nat option \<Rightarrow>
   'a hook \<times> storage \<Rightarrow> 'a hook \<times> storage" where
  "hook_effect serialize setItem key debounce st =
     (case st of (h, localStorage) \<Rightarrow>
        if isInitialMount h then (h\<lparr>isInitialMount := False\<rparr>, localStorage)
        else if (case debounce of None \<Rightarrow> False | Some d \<Rightarrow> d \<noteq> 0)
        then (h\<lparr>debounceTimer := Some (val h)\<rparr>, localStorage)
        else (h\<lparr>debounceTimer := None\<rparr>,
              saveToLocalStorage serialize setItem key (val h) localStorage))"

text \<open>The debounce timer fires.\<close>

definition hook_timer ::
  "('a \<Rightarrow> string) \<Rightarrow> (storage \<Rightarrow> string \<Rightarrow> string \<Rightarrow> storage option) \<Rightarrow> string \<Rightarrow>
   'a hook \<times> storage \<Rightarrow> 'a hook \<times> storage" where
  "hook_timer serialize setItem key st =
     (case st of (h, localStorage) \<Rightarrow>
        (case debounceTimer h of
           None \<Rightarrow> (h, localStorage)
         | Some v \<Rightarrow> (h\<lparr>debounceTimer := None\<rparr>,
                      saveToLocalStorage serialize setItem key v localStorage)))"

text \<open>A \<open>setItem\<close> that never throws.\<close>

definition setItem_ok :: "storage \<Rightarrow> string \<Rightarrow> string \<Rightarrow> storage option" where
  "setItem_ok localStorage key item = Some (localStorage(key \<mapsto> item))"

text \<open>
  The words of the specification: the persisted snapshot of the tracked value equals the
  value in memory.
\<close>

definition in_sync :: "('a \<Rightarrow> string) \<Rightarrow> string \<Rightarrow> 'a hook \<times> storage \<Rightarrow> bool" where
  "in_sync serialize key st = (snd st key = Some (serialize (val (fst st))))"

text \<open>
  A stand-in for \<open>JSON.stringify\<close> on the list of placeholders, for concrete runs: the
  ids and statuses, which is enough to tell two different lists of the runs below apart.
\<close>

definition stringify :: "GeneratingImage list \<Rightarrow> string" where
  "stringify xs =
     ''['' @ concat (map (\<lambda>img. ''{'' @ gen_id img @ '':'' @ status img @ ''}'') xs) @ '']''"

section \<open>Concrete data for the runs below\<close>

definition image_a :: ImageMetadata where
  "image_a = \<lparr>id' = ''a'', workflow_id = ''w'', workflow_name = ''W'', prompt = ''sunset'',
              prompt_id = ''job1'', created_at = 3\<rparr>"

definition image_b :: ImageMetadata where
  "image_b = \<lparr>id' = ''b'', workflow_id = ''w'', workflow_name = ''W'', prompt = ''dawn'',
              prompt_id = ''job0'', created_at = 2\<rparr>"


definition job1 :: GeneratingImage where
  "job1 = \<lparr>gen_id = ''job1'', gen_prompt = ''sunset'', gen_workflow_id = ''w'',
           gen_workflow_name = ''W'', status = ''queued'', progress = Some 0,
           override_params = None, timestamp = Some 1700000000000, imageData = None\<rparr>"

definition job1_done :: GeneratingImage where
  "job1_done = job1\<lparr>status := ''completed'', imageData := Some image_a\<rparr>"

definition app_empty :: app where
  "app_empty = \<lparr>generatingImages = [], images = [], error = None, timers = [], requests = []\<rparr>"

definition app1 :: app where
  "app1 = app_empty\<lparr>generatingImages := [job1], images := [image_b]\<rparr>"

text \<open>
  Persisted jobs at the clock value \<open>1700000000000\<close>: one that is 10 minutes old and one
  that is 2 hours old.
\<close>

definition job_recent :: GeneratingImage where
  "job_recent = job1\<lparr>gen_id := ''recent'', status := ''processing'',
                     timestamp := Some (1700000000000 - 10 * 60 * 1000)\<rparr>"

definition job_old :: GeneratingImage where
  "job_old = job1\<lparr>gen_id := ''old'', status := ''processing'',
                  timestamp := Some (1700000000000 - 2 * 60 * 60 * 1000)\<rparr>"

text \<open>
  The hook for the key \<open>generatingImages\<close> after its mount, on a storage that holds the
  empty list: the initial state, then the first run of the effect.
\<close>

definition storage0 :: storage where
  "storage0 = [''generatingImages'' \<mapsto> stringify []]"

definition mounted ::
  "GeneratingImage list hook \<times> storage" where
  "mounted =
     hook_effect stringify setItem_ok ''generatingImages'' None
       (hook_init (\<lambda>item. []) ''generatingImages'' [] storage0, storage0)"

text \<open>A parser for a storage that holds a snapshot of the two dated jobs.\<close>

definition parse_dated :: "string \<Rightarrow> GeneratingImage list option" where
  "parse_dated item = Some [job_recent, job_old]"


text \<open>
  A parser for a storage that holds the overrides of two workflows, and the successful
  answer of the backend to a submit.
\<close>

definition parse_overrides :: "string \<Rightarrow> (string \<times> overrides) list option" where
  "parse_overrides item =
     Some [(''w'', [(''seed'', JNum 7), (''cfg'', JStr []), (''steps'', JNull),
                    (''__proto__'', JNum 5)]),
           (''v'', [(''seed'', JStr [])])]"

definition response1 :: GenerationResponse where
  "response1 = \<lparr>res_prompt_id = ''job1'', res_workflow_id = ''w'', res_status = ''queued'',
                res_message = None\<rparr>"

section \<open>Selection model: lemmas\<close>



lemma findIndex_absent: "\<forall>x \<in> set xs. \<not> p x \<Longrightarrow> findIndex p xs = -1"
  by (induction xs) (auto simp: Let_def)


lemma rangeLoop_below_zero: "i < 0 \<Longrightarrow> i \<le> end' \<Longrightarrow> rangeLoop imgs i end' newSet = Inl TypeError"
  by (simp add: rangeLoop.simps [of imgs i] image_id_at_def)




lemma toggleSelection_shift_absent:
  assumes "\<forall>x \<in> set imgs. id' x \<noteq> imageId" and "lastClickedIndex s = Some prevLastIndex"
  shows "toggleSelection imgs imageId True s = Inl TypeError"
proof -
  have "findIndex (\<lambda>img. id' img = imageId) imgs = -1"
    using assms(1) by (intro findIndex_absent) simp
  moreover have "rangeLoop imgs (min prevLastIndex (-1)) (max prevLastIndex (-1))
      (selectedIds s) = Inl TypeError"
    by (rule rangeLoop_below_zero) auto
  ultimately show ?thesis
    using assms(2) by (simp add: toggleSelection_def Let_def)
qed

section \<open>Selection model: claims\<close>




text \<open>
  C10. \<open>toggleSelection\<close> is claimed never to read outside the bounds of the list. With
  one image in the list and \<open>lastClickedIndex = 0\<close>, a shift-click on an id that is not in
  the list makes \<open>findIndex\<close> return \<open>-1\<close>, the loop starts at \<open>images[-1]\<close>, and the read
  of \<open>.id\<close> throws. With \<open>lastClickedIndex = 3\<close>, left from a longer list, a shift-click
  on the one image runs the loop from \<open>0\<close> to \<open>3\<close> and the read of \<open>images[1].id\<close>
  throws.
\<close>

theorem toggleSelection_reads_out_of_bounds:
  "toggleSelection [image_a] ''zzz'' True \<lparr>selectedIds = {}, lastClickedIndex = Some 0\<rparr> =
     Inl TypeError \<and>
   image_id_at [image_a] (-1) = Inl TypeError \<and>
   toggleSelection [image_a] ''a'' True \<lparr>selectedIds = {}, lastClickedIndex = Some 3\<rparr> =
     Inl TypeError \<and>
   image_id_at [image_a] 1 = Inl TypeError"
  by (simp add: toggleSelection_def Let_def rangeLoop.simps image_id_at_def image_a_def)

section \<open>Placeholders and the grid: lemmas\<close>

lemma count_list_distinct: "distinct xs \<Longrightarrow> x \<in> set xs \<Longrightarrow> count_list xs x = 1"
  by (induction xs) auto

lemma filteredImages_excludes:
  assumes "g \<in> set generating" and "status g = ''completed''" and "imageData g = Some d"
  shows "id' d \<notin> id' ` set (filteredImages generating completedImages)"
proof
  assume "id' d \<in> id' ` set (filteredImages generating completedImages)"
  then obtain img where img: "img \<in> set (filteredImages generating completedImages)"
    and eq: "id' img = id' d" by auto
  from img have "\<not> list_ex (\<lambda>genImg. status genImg = ''completed'' \<and>
      (case imageData genImg of None \<Rightarrow> False | Some d \<Rightarrow> id' d = id' img)) generating"
    by (simp add: filteredImages_def)
  with assms eq show False by (auto simp: list_ex_iff)
qed

lemma placeholderCards_member:
  assumes "g \<in> set generating" and "status g = ''completed''" and "imageData g = Some d"
  shows "id' d \<in> set (placeholderCards generating)"
  using assms by (force simp: placeholderCards_def)

lemma mark_failed_status:
  assumes "g \<in> set (map (\<lambda>img. if gen_id img = p then img\<lparr>status := ''failed''\<rparr> else img) xs)"
    and "gen_id g = p"
  shows "status g = ''failed''"
proof -
  from assms(1) obtain x where g: "g = (if gen_id x = p then x\<lparr>status := ''failed''\<rparr> else x)"
    unfolding set_map by (rule imageE)
  show ?thesis
  proof (cases "gen_id x = p")
    case True
    with g show ?thesis by simp
  next
    case False
    with g assms(2) show ?thesis by simp
  qed
qed

section \<open>Placeholders and the grid: claims\<close>

text \<open>
  C2. While a placeholder with status \<open>completed\<close> holds the data of an artifact, no card
  of \<open>filteredImages\<close> (the plain historical stream) has that artifact's id, whatever the
  history list contains. So the id appears in the rendered grid exactly as often as
  among the placeholder cards, and exactly once when no two placeholder cards show the
  same artifact.
\<close>

theorem resolved_artifact_shown_once:
  assumes "g \<in> set generating" and "status g = ''completed''" and "imageData g = Some d"
  shows "id' d \<notin> id' ` set (filteredImages generating completedImages) \<and>
         count_list (visibleImageIds generating completedImages) (id' d) =
           count_list (placeholderCards generating) (id' d) \<and>
         (distinct (placeholderCards generating) \<longrightarrow>
            count_list (visibleImageIds generating completedImages) (id' d) = 1)"
proof -
  have ex: "id' d \<notin> id' ` set (filteredImages generating completedImages)"
    using assms by (rule filteredImages_excludes)
  then have zero: "count_list (map id' (filteredImages generating completedImages)) (id' d) = 0"
    by (simp add: count_list_0_iff)
  have cnt: "count_list (visibleImageIds generating completedImages) (id' d) =
      count_list (placeholderCards generating) (id' d)"
    by (simp add: visibleImageIds_def zero)
  have mem: "id' d \<in> set (placeholderCards generating)"
    using assms by (rule placeholderCards_member)
  from ex cnt mem show ?thesis by (simp add: count_list_distinct)
qed

theorem resolved_artifact_shown_once_witness:
  "generatingImages (onComplete ''job1'' (Inr [image_a]) app1) = [job1_done] \<and>
   map id' (images (onComplete ''job1'' (Inr [image_a]) app1)) = [''a'', ''b''] \<and>
   ''a'' \<notin> id' ` set (filteredImages (generatingImages (onComplete ''job1'' (Inr [image_a]) app1))
                          (images (onComplete ''job1'' (Inr [image_a]) app1))) \<and>
   visibleImageIds (generatingImages (onComplete ''job1'' (Inr [image_a]) app1))
     (images (onComplete ''job1'' (Inr [image_a]) app1)) = [''a'', ''b''] \<and>
   visibleImageIds
     (generatingImages (timer_fire (5000, ''job1'') (onComplete ''job1'' (Inr [image_a]) app1)))
     (images (timer_fire (5000, ''job1'') (onComplete ''job1'' (Inr [image_a]) app1))) =
     [''a'', ''b'']"
  using resolved_artifact_shown_once
    [of job1_done "generatingImages (onComplete ''job1'' (Inr [image_a]) app1)" image_a
        "images (onComplete ''job1'' (Inr [image_a]) app1)"]
  by (simp add: onComplete_def onComplete_resume_def onComplete_start_def app1_def app_empty_def
      job1_done_def job1_def image_a_def image_b_def sortByCreatedAt_def visibleImageIds_def
      placeholderCards_def filteredImages_def timer_fire_def removeGenerating_def)

text \<open>
  C6. When the page fetched by \<open>onComplete\<close> has no image with the prompt id of the job,
  every placeholder of that id gets the status \<open>failed\<close> (the others are untouched), the
  banner shows the text \<open>Failed to retrieve generated image. Please check your images
  list.\<close>, which is not what the banner shows after \<open>onError\<close>, the handler of channel
  errors, whatever its error; one timer of 3000 ms is scheduled whose firing removes the
  placeholder, the history list is unchanged, and the only request made is the one fetch
  of page 1.
\<close>

theorem reconciliation_not_found:
  assumes "\<forall>img \<in> set newImages. prompt_id img \<noteq> promptId"
  shows "generatingImages (onComplete promptId (Inr newImages) s) =
           map (\<lambda>img. if gen_id img = promptId then img\<lparr>status := ''failed''\<rparr> else img)
               (generatingImages s) \<and>
         (\<forall>g \<in> set (generatingImages (onComplete promptId (Inr newImages) s)).
            gen_id g = promptId \<longrightarrow> status g = ''failed'') \<and>
         errorBanner (onComplete promptId (Inr newImages) s) =
           Some ''Failed to retrieve generated image. Please check your images list.'' \<and>
         (\<forall>err s0. errorBanner (onError promptId err s0) = Some (''Generation failed: '' @ err) \<and>
                   errorBanner (onError promptId err s0) \<noteq>
                     errorBanner (onComplete promptId (Inr newImages) s)) \<and>
         error (onComplete promptId (Inr newImages) s) = Some notFoundMessage \<and>
         (\<forall>err s0. error (onError promptId err s0) \<noteq> Some notFoundMessage) \<and>
         timers (onComplete promptId (Inr newImages) s) = timers s @ [(3000, promptId)] \<and>
         (\<forall>g \<in> set (generatingImages
                        (timer_fire (3000, promptId) (onComplete promptId (Inr newImages) s))).
            gen_id g \<noteq> promptId) \<and>
         requests (onComplete promptId (Inr newImages) s) = requests s @ [ListImages 1 50] \<and>
         images (onComplete promptId (Inr newImages) s) = images s"
proof -
  have nf: "find (\<lambda>img. prompt_id img = promptId) newImages = None"
    using assms by (simp add: find_None_iff)
  have st: "onComplete promptId (Inr newImages) s =
      s\<lparr>generatingImages :=
           map (\<lambda>img. if gen_id img = promptId then img\<lparr>status := ''failed''\<rparr> else img)
               (generatingImages s),
         error := Some notFoundMessage,
         timers := timers s @ [(3000, promptId)],
         requests := requests s @ [ListImages 1 50]\<rparr>"
    by (simp add: onComplete_def onComplete_resume_def onComplete_start_def nf)
  have banner: "errorBanner (onComplete promptId (Inr newImages) s) =
      Some ''Failed to retrieve generated image. Please check your images list.''"
    by (simp add: st errorBanner_def notFoundMessage_def)
  have banner_err: "errorBanner (onError promptId err s0) = Some (''Generation failed: '' @ err)"
    for err s0
    by (simp add: onError_def errorBanner_def)
  have banner_distinct: "errorBanner (onError promptId err s0) \<noteq>
      errorBanner (onComplete promptId (Inr newImages) s)" for err s0
    by (simp add: banner banner_err)
  have distinct_msg: "error (onError promptId err s0) \<noteq> Some notFoundMessage" for err s0
    by (simp add: onError_def notFoundMessage_def)
  have gone: "\<forall>g \<in> set (generatingImages
                        (timer_fire (3000, promptId) (onComplete promptId (Inr newImages) s))).
            gen_id g \<noteq> promptId"
    by (simp add: timer_fire_def removeGenerating_def)
  have rest: "generatingImages (onComplete promptId (Inr newImages) s) =
           map (\<lambda>img. if gen_id img = promptId then img\<lparr>status := ''failed''\<rparr> else img)
               (generatingImages s)"
    "error (onComplete promptId (Inr newImages) s) = Some notFoundMessage"
    "timers (onComplete promptId (Inr newImages) s) = timers s @ [(3000, promptId)]"
    "requests (onComplete promptId (Inr newImages) s) = requests s @ [ListImages 1 50]"
    "images (onComplete promptId (Inr newImages) s) = images s"
    by (simp_all add: st)
  have failed: "\<forall>g \<in> set (generatingImages (onComplete promptId (Inr newImages) s)).
            gen_id g = promptId \<longrightarrow> status g = ''failed''"
    unfolding rest(1) using mark_failed_status by blast
  show ?thesis
    apply (intro conjI allI)
              apply (rule rest(1))
             apply (rule failed)
            apply (rule banner)
           apply (rule banner_err)
          apply (rule banner_distinct)
         apply (rule rest(2))
        apply (rule distinct_msg)
       apply (rule rest(3))
      apply (rule gone)
     apply (rule rest(4))
    apply (rule rest(5))
    done
qed

theorem reconciliation_not_found_witness:
  "map status (generatingImages (onComplete ''job1'' (Inr [image_b]) app1)) = [''failed''] \<and>
   errorBanner (onComplete ''job1'' (Inr [image_b]) app1) =
     Some ''Failed to retrieve generated image. Please check your images list.'' \<and>
   errorBanner (onError ''job1'' ''OOM'' app1) = Some ''Generation failed: OOM'' \<and>
   timers (onComplete ''job1'' (Inr [image_b]) app1) = [(3000, ''job1'')] \<and>
   generatingImages (timer_fire (3000, ''job1'') (onComplete ''job1'' (Inr [image_b]) app1)) = []"
  using reconciliation_not_found [of "[image_b]" "''job1''" app1]
  by (simp add: image_b_def app1_def app_empty_def job1_def timer_fire_def removeGenerating_def)

section \<open>Progress channels: claims\<close>

text \<open>
  C7. An inbound message whose payload fails to parse is logged and ignored: the handler
  invokes no callback and writes one error to the console, and the message event leaves
  the manager (the socket, its \<open>readyState\<close> and its registration) and the application
  state (every placeholder) as they were.
\<close>

theorem malformed_message_ignored:
  assumes "JSON_parse event_data = None"
  shows "ws_onmessage JSON_parse promptId event_data = ([], [ConsoleError]) \<and>
         ws_message_event JSON_parse answer h event_data (m, s) = (m, s)"
  using assms by (simp add: ws_onmessage_def ws_message_event_def)

theorem malformed_message_ignored_witness:
  "ws_onmessage (\<lambda>payload. if payload = ''{'' then None else Some OtherMessage) ''job1'' ''{'' =
     ([], [ConsoleError]) \<and>
   ws_message_event (\<lambda>payload. if payload = ''{'' then None else Some OtherMessage)
     (Inr []) 0 ''{''
     (ws_open_event 0 (connect ''job1'' ''w'' ''sunset'' None manager_init), app1) =
     (ws_open_event 0 (connect ''job1'' ''w'' ''sunset'' None manager_init), app1) \<and>
   map readyState (sockets (ws_open_event 0 (connect ''job1'' ''w'' ''sunset'' None manager_init))) =
     [OPEN]"
  using malformed_message_ignored
    [of "\<lambda>payload. if payload = ''{'' then None else Some OtherMessage" "''{''" "''job1''"
        "Inr []" 0 "ws_open_event 0 (connect ''job1'' ''w'' ''sunset'' None manager_init)" app1]
  by (simp add: ws_open_event_def connect_def manager_init_def Let_def)

text \<open>
  C1. At most one live channel per job id is claimed. Two runs of the manager from its
  initial state, for one prompt id. In the first, \<open>connect\<close> is called twice before the
  first socket has opened: the first socket is \<open>CONNECTING\<close>, not \<open>OPEN\<close>, so it is not
  closed, and after both \<open>open\<close> events the job has two open channels. In the second, the
  first socket is open when \<open>connect\<close> is called again and is closed; when its \<open>close\<close>
  event arrives, \<open>onclose\<close> deletes the prompt id from the map, which by then holds the
  second socket: the open second socket is no longer registered, and a third \<open>connect\<close>
  leaves it open beside the third.
\<close>

theorem two_open_channels_for_one_job:
  "liveChannels ''job1''
     (manager_run [Connect ''job1'' ''w'' ''sunset'' None, Connect ''job1'' ''w'' ''sunset'' None]
        manager_init) = [0, 1] \<and>
   openChannels ''job1''
     (manager_run [Connect ''job1'' ''w'' ''sunset'' None, Connect ''job1'' ''w'' ''sunset'' None,
                   OpenEvent 0, OpenEvent 1] manager_init) = [0, 1] \<and>
   openChannels ''job1''
     (manager_run [Connect ''job1'' ''w'' ''sunset'' None, OpenEvent 0,
                   Connect ''job1'' ''w'' ''sunset'' None, OpenEvent 1, CloseEvent 0]
        manager_init) = [1] \<and>
   map_of (wsMap
     (manager_run [Connect ''job1'' ''w'' ''sunset'' None, OpenEvent 0,
                   Connect ''job1'' ''w'' ''sunset'' None, OpenEvent 1, CloseEvent 0]
        manager_init)) ''job1'' = None \<and>
   openChannels ''job1''
     (manager_run [Connect ''job1'' ''w'' ''sunset'' None, OpenEvent 0,
                   Connect ''job1'' ''w'' ''sunset'' None, OpenEvent 1, CloseEvent 0,
                   Connect ''job1'' ''w'' ''sunset'' None, OpenEvent 2]
        manager_init) = [1, 2]"
  by (simp add: manager_run_def manager_init_def connect_def ws_open_event_def
      ws_close_event_def ws_close_def openChannels_def liveChannels_def Let_def upt_rec
      nth_append)

section \<open>Job launchers: lemmas\<close>

lemma set_update_subset: "set (AList.update k v al) \<subseteq> insert (k, v) (set al)"
  by (induction al) auto

lemma update_fresh: "k \<notin> fst ` set al \<Longrightarrow> AList.update k v al = al @ [(k, v)]"
  by (induction al) auto

lemma update_not_Nil: "AList.update k v al \<noteq> []"
  by (cases al) auto

lemma fold_overrides_distinct:
  assumes "distinct (map fst xs)" and "fst ` set xs \<inter> fst ` set acc = {}"
  shows "fold (\<lambda>(key, v) acc. if nonEmpty v then assignProperty key v acc else acc) xs acc =
         acc @ filter (\<lambda>(key, v). key \<noteq> ''__proto__'' \<and> nonEmpty v) xs"
  using assms
proof (induction xs arbitrary: acc)
  case Nil
  then show ?case by simp
next
  case (Cons x xs)
  obtain k v where x: "x = (k, v)" by (cases x)
  from Cons.prems x have fresh: "k \<notin> fst ` set acc" and d: "distinct (map fst xs)"
    and kx: "k \<notin> fst ` set xs" and disj: "fst ` set xs \<inter> fst ` set acc = {}"
    by auto
  show ?case
  proof (cases "k \<noteq> ''__proto__'' \<and> nonEmpty v")
    case True
    have disj': "fst ` set xs \<inter> fst ` set (acc @ [(k, v)]) = {}"
      using disj kx by auto
    show ?thesis
      using True Cons.IH [OF d disj']
      by (simp add: x assignProperty_def update_fresh [OF fresh])
  next
    case False
    then show ?thesis
      using Cons.IH [OF d disj] by (auto simp: x assignProperty_def)
  qed
qed

lemma fold_overrides_set:
  "set (fold (\<lambda>(key, v) acc. if nonEmpty v then assignProperty key v acc else acc) xs acc) \<subseteq>
   set acc \<union> {(k, v). (k, v) \<in> set xs \<and> k \<noteq> ''__proto__'' \<and> nonEmpty v}"
proof (induction xs arbitrary: acc)
  case Nil
  then show ?case by simp
next
  case (Cons x xs)
  obtain k v where x: "x = (k, v)" by (cases x)
  show ?case
  proof (cases "k \<noteq> ''__proto__'' \<and> nonEmpty v")
    case True
    have "set (AList.update k v acc) \<subseteq> insert (k, v) (set acc)"
      by (rule set_update_subset)
    with True Cons.IH [of "AList.update k v acc"] show ?thesis
      by (auto simp: x assignProperty_def)
  next
    case False
    with Cons.IH [of acc] show ?thesis
      by (auto simp: x assignProperty_def)
  qed
qed

lemma fold_overrides_none:
  "\<forall>(k, v) \<in> set xs. \<not> nonEmpty v \<Longrightarrow>
   fold (\<lambda>(key, v) acc. if nonEmpty v then assignProperty key v acc else acc) xs acc = acc"
  by (induction xs arbitrary: acc) auto

lemma filterOverrides_Some:
  assumes "filterOverrides workflowOverrides = Some m"
  shows "m \<noteq> [] \<and> (\<forall>(k, v) \<in> set m. (k, v) \<in> set workflowOverrides \<and> nonEmpty v)"
proof -
  let ?r = "fold (\<lambda>(key, v) acc. if nonEmpty v then assignProperty key v acc else acc)
              workflowOverrides []"
  from assms have m: "m = ?r" and ne: "?r \<noteq> []"
    by (auto simp: filterOverrides_def Let_def split: if_splits)
  have "set ?r \<subseteq> {(k, v). (k, v) \<in> set workflowOverrides \<and> k \<noteq> ''__proto__'' \<and> nonEmpty v}"
    using fold_overrides_set [of workflowOverrides "[]"] by simp
  with m ne show ?thesis by auto
qed

lemma filterOverrides_None:
  assumes "\<forall>(k, v) \<in> set workflowOverrides. \<not> nonEmpty v"
  shows "filterOverrides workflowOverrides = None"
  using fold_overrides_none [OF assms, of "[]"] by (simp add: filterOverrides_def Let_def)

lemma filterOverrides_distinct:
  assumes "distinct (map fst workflowOverrides)"
  shows "filterOverrides workflowOverrides =
     (if filter (\<lambda>(key, v). key \<noteq> ''__proto__'' \<and> nonEmpty v) workflowOverrides = []
      then None
      else Some (filter (\<lambda>(key, v). key \<noteq> ''__proto__'' \<and> nonEmpty v) workflowOverrides))"
  using fold_overrides_distinct [OF assms, of "[]"] by (simp add: filterOverrides_def Let_def)

lemma localGenerate_success:
  assumes "workflowId \<noteq> []" and "res_status response \<noteq> ''failed''"
  shows "snd (localGenerate workflows now overrideParams workflowId prompt' (Inr response) s) =
         Some (res_prompt_id response)"
  using assms by (simp add: localGenerate_def Let_def)

lemma connect_last:
  "sockets (connect promptId workflowId prompt' overrideParams m) \<noteq> [] \<and>
   last (sockets (connect promptId workflowId prompt' overrideParams m)) =
     \<lparr>ws_promptId = promptId, ws_workflowId = workflowId, ws_prompt = prompt',
      ws_overrideParams = overrideParams, readyState = CONNECTING\<rparr>"
  by (simp add: connect_def Let_def)

section \<open>Job launchers: claims\<close>

text \<open>
  C9. For the local backend the override map that is transmitted is computed from the
  stored overrides of the workflow. Every entry of a transmitted map is an entry of the
  stored map whose value is neither the empty string nor \<open>null\<close> nor \<open>undefined\<close>, and a
  transmitted map is not empty; when every stored value is the empty string, \<open>null\<close> or
  \<open>undefined\<close>, the field \<open>override_params\<close> of the request is \<open>null\<close>. The keys of a
  stored object being pairwise different, the transmitted map is exactly the stored
  entries with such a value, in order, without an entry of the key \<open>__proto__\<close> (which
  the assignment cannot store), and \<open>null\<close> when none is left. After a successful
  submit the \<open>monitor\<close> message of the channel that \<open>handleGenerate\<close> opens carries the
  same value.
\<close>

theorem empty_overrides_dropped:
  assumes "savedOverrides = Some saved" and "saved \<noteq> []"
    and "JSON_parse saved = Some allOverrides"
    and "map_of allOverrides workflowId = Some workflowOverrides"
  shows "(\<forall>sent. req_override_params
                   (localGenerate_request (loadOverrideParams JSON_parse savedOverrides workflowId)
                      workflowId prompt' uploadedImageFile) = Some sent \<longrightarrow>
            sent \<noteq> [] \<and>
            (\<forall>(k, v) \<in> set sent.
               (k, v) \<in> set workflowOverrides \<and> v \<noteq> JStr [] \<and> v \<noteq> JNull \<and> v \<noteq> JUndefined)) \<and>
         ((\<forall>(k, v) \<in> set workflowOverrides. v = JStr [] \<or> v = JNull \<or> v = JUndefined) \<longrightarrow>
            req_override_params
              (localGenerate_request (loadOverrideParams JSON_parse savedOverrides workflowId)
                 workflowId prompt' uploadedImageFile) = None) \<and>
         (distinct (map fst workflowOverrides) \<longrightarrow>
            req_override_params
              (localGenerate_request (loadOverrideParams JSON_parse savedOverrides workflowId)
                 workflowId prompt' uploadedImageFile) =
            (if filter (\<lambda>(k, v). k \<noteq> ''__proto__'' \<and> v \<noteq> JStr [] \<and> v \<noteq> JNull \<and> v \<noteq> JUndefined)
                  workflowOverrides = []
             then None
             else Some (filter (\<lambda>(k, v). k \<noteq> ''__proto__'' \<and> v \<noteq> JStr [] \<and> v \<noteq> JNull \<and>
                                        v \<noteq> JUndefined) workflowOverrides))) \<and>
         (workflowId \<noteq> [] \<and> res_status response \<noteq> ''failed'' \<and> res_prompt_id response \<noteq> [] \<longrightarrow>
            sockets (fst (handleGenerate_local JSON_parse savedOverrides workflows now
                            (Some workflowId) prompt' (Inr response) (m, s))) \<noteq> [] \<and>
            monitorMessage
              (last (sockets (fst (handleGenerate_local JSON_parse savedOverrides workflows now
                                     (Some workflowId) prompt' (Inr response) (m, s))))) =
              \<lparr>mon_prompt_id = res_prompt_id response, mon_workflow_id = workflowId,
               mon_prompt = prompt', mon_save_to_disk = True,
               mon_override_params =
                 req_override_params
                   (localGenerate_request (loadOverrideParams JSON_parse savedOverrides workflowId)
                      workflowId prompt' uploadedImageFile)\<rparr>)"
proof -
  let ?ov = "loadOverrideParams JSON_parse savedOverrides workflowId"
  have ov: "?ov = filterOverrides workflowOverrides"
    using assms by (simp add: loadOverrideParams_def)
  have req: "req_override_params (localGenerate_request ?ov workflowId prompt' uploadedImageFile) =
      filterOverrides workflowOverrides"
    by (simp add: localGenerate_request_def ov)
  have c1: "sent \<noteq> [] \<and> (\<forall>(k, v) \<in> set sent.
               (k, v) \<in> set workflowOverrides \<and> v \<noteq> JStr [] \<and> v \<noteq> JNull \<and> v \<noteq> JUndefined)"
    if "filterOverrides workflowOverrides = Some sent" for sent
    using filterOverrides_Some [OF that] by (auto simp: nonEmpty_def)
  have c2: "filterOverrides workflowOverrides = None"
    if "\<forall>(k, v) \<in> set workflowOverrides. v = JStr [] \<or> v = JNull \<or> v = JUndefined"
  proof (rule filterOverrides_None)
    from that show "\<forall>(k, v) \<in> set workflowOverrides. \<not> nonEmpty v"
      by (auto simp: nonEmpty_def)
  qed
  have same: "(\<lambda>(k, v). k \<noteq> ''__proto__'' \<and> v \<noteq> JStr [] \<and> v \<noteq> JNull \<and> v \<noteq> JUndefined) =
      (\<lambda>(key, v). key \<noteq> ''__proto__'' \<and> nonEmpty v)"
    by (simp add: nonEmpty_def)
  have c3: "filterOverrides workflowOverrides =
      (if filter (\<lambda>(k, v). k \<noteq> ''__proto__'' \<and> v \<noteq> JStr [] \<and> v \<noteq> JNull \<and> v \<noteq> JUndefined)
            workflowOverrides = []
       then None
       else Some (filter (\<lambda>(k, v). k \<noteq> ''__proto__'' \<and> v \<noteq> JStr [] \<and> v \<noteq> JNull \<and>
                                  v \<noteq> JUndefined) workflowOverrides))"
    if "distinct (map fst workflowOverrides)"
    unfolding same by (rule filterOverrides_distinct [OF that])
  have c4: "sockets (fst (handleGenerate_local JSON_parse savedOverrides workflows now
                            (Some workflowId) prompt' (Inr response) (m, s))) \<noteq> [] \<and>
            monitorMessage
              (last (sockets (fst (handleGenerate_local JSON_parse savedOverrides workflows now
                                     (Some workflowId) prompt' (Inr response) (m, s))))) =
              \<lparr>mon_prompt_id = res_prompt_id response, mon_workflow_id = workflowId,
               mon_prompt = prompt', mon_save_to_disk = True,
               mon_override_params = filterOverrides workflowOverrides\<rparr>"
    if w: "workflowId \<noteq> []" and ok: "res_status response \<noteq> ''failed''"
      and pid: "res_prompt_id response \<noteq> []"
  proof -
    have h: "fst (handleGenerate_local JSON_parse savedOverrides workflows now
                (Some workflowId) prompt' (Inr response) (m, s)) =
        connect (res_prompt_id response) workflowId prompt' ?ov m"
    proof -
      obtain s' where "localGenerate workflows now ?ov workflowId prompt' (Inr response) s =
          (s', Some (res_prompt_id response))"
        using localGenerate_success [OF w ok, of workflows now ?ov prompt' s]
        by (cases "localGenerate workflows now ?ov workflowId prompt' (Inr response) s") simp
      then show ?thesis
        using w pid by (simp add: handleGenerate_local_def)
    qed
    show ?thesis
      unfolding h using connect_last [of "res_prompt_id response" workflowId prompt' ?ov m]
      by (simp add: monitorMessage_def ov)
  qed
  show ?thesis
    unfolding req
    apply (intro conjI allI impI)
         apply (rule c1 [THEN conjunct1], assumption)
        apply (rule c1 [THEN conjunct2], assumption)
       apply (rule c2, assumption)
      apply (rule c3, assumption)
     apply (rule c4 [THEN conjunct1], simp, simp, simp)
    apply (rule c4 [THEN conjunct2], simp, simp, simp)
    done
qed

theorem empty_overrides_dropped_witness:
  "req_override_params
     (localGenerate_request (loadOverrideParams parse_overrides (Some ''stored'') ''w'')
        ''w'' ''sunset'' None) = Some [(''seed'', JNum 7)] \<and>
   req_override_params
     (localGenerate_request (loadOverrideParams parse_overrides (Some ''stored'') ''v'')
        ''v'' ''sunset'' None) = None \<and>
   monitorMessage
     (last (sockets (fst (handleGenerate_local parse_overrides (Some ''stored'') [] 1700000000000
                            (Some ''w'') ''sunset'' (Inr response1) (manager_init, app_empty))))) =
     \<lparr>mon_prompt_id = ''job1'', mon_workflow_id = ''w'', mon_prompt = ''sunset'',
      mon_save_to_disk = True, mon_override_params = Some [(''seed'', JNum 7)]\<rparr>"
proof -
  let ?all = "[(''w'', [(''seed'', JNum 7), (''cfg'', JStr []), (''steps'', JNull),
                        (''__proto__'', JNum 5)]),
               (''v'', [(''seed'', JStr [])])]"
  have a1: "''stored'' \<noteq> []" by simp
  have a2: "parse_overrides ''stored'' = Some ?all" by (simp add: parse_overrides_def)
  have w: "map_of ?all ''w'' =
      Some [(''seed'', JNum 7), (''cfg'', JStr []), (''steps'', JNull), (''__proto__'', JNum 5)]"
    by simp
  have v: "map_of ?all ''v'' = Some [(''seed'', JStr [])]" by simp
  note W = empty_overrides_dropped
    [of "Some ''stored''" "''stored''" parse_overrides ?all "''w''"
        "[(''seed'', JNum 7), (''cfg'', JStr []), (''steps'', JNull), (''__proto__'', JNum 5)]"
        "''sunset''" None response1 "[]" 1700000000000 manager_init app_empty,
     OF refl a1 a2 w]
  note V = empty_overrides_dropped
    [of "Some ''stored''" "''stored''" parse_overrides ?all "''v''" "[(''seed'', JStr [])]"
        "''sunset''" None response1 "[]" 1700000000000 manager_init app_empty,
     OF refl a1 a2 v]
  have r1: "req_override_params
     (localGenerate_request (loadOverrideParams parse_overrides (Some ''stored'') ''w'')
        ''w'' ''sunset'' None) = Some [(''seed'', JNum 7)]"
    using W [THEN conjunct2, THEN conjunct2, THEN conjunct1] by simp
  have r2: "req_override_params
     (localGenerate_request (loadOverrideParams parse_overrides (Some ''stored'') ''v'')
        ''v'' ''sunset'' None) = None"
    using V [THEN conjunct2, THEN conjunct1] by simp
  have r3: "monitorMessage
     (last (sockets (fst (handleGenerate_local parse_overrides (Some ''stored'') [] 1700000000000
                            (Some ''w'') ''sunset'' (Inr response1) (manager_init, app_empty))))) =
     \<lparr>mon_prompt_id = ''job1'', mon_workflow_id = ''w'', mon_prompt = ''sunset'',
      mon_save_to_disk = True, mon_override_params = Some [(''seed'', JNum 7)]\<rparr>"
    using W [THEN conjunct2, THEN conjunct2, THEN conjunct2] unfolding r1
    by (simp add: response1_def)
  from r1 r2 r3 show ?thesis by (intro conjI)
qed




section \<open>Resuming at cold start: lemmas\<close>

lemma connect_all_connecting:
  assumes "all_connecting m"
  shows "sockets (connect promptId workflowId prompt' overrideParams m) =
           sockets m @ [\<lparr>ws_promptId = promptId, ws_workflowId = workflowId, ws_prompt = prompt',
                          ws_overrideParams = overrideParams, readyState = CONNECTING\<rparr>]"
    and "all_connecting (connect promptId workflowId prompt' overrideParams m)"
proof -
  from assms have c: "\<forall>w \<in> set (sockets m). readyState w = CONNECTING"
    and r: "\<forall>(p, h) \<in> set (wsMap m). h < length (sockets m)"
    by (simp_all add: all_connecting_def list_all_iff)
  have keep: "(case map_of (wsMap m) promptId of
                 Some existingWs \<Rightarrow>
                   if existingWs < length (sockets m) \<and> readyState (sockets m ! existingWs) = OPEN
                    then ws_close existingWs m else m
               | None \<Rightarrow> m) = m"
  proof (cases "map_of (wsMap m) promptId")
    case None
    then show ?thesis by simp
  next
    case (Some h)
    then have "(promptId, h) \<in> set (wsMap m)" by (rule map_of_SomeD)
    with r have "h < length (sockets m)" by auto
    then have "sockets m ! h \<in> set (sockets m)" by simp
    with c have "readyState (sockets m ! h) = CONNECTING" by blast
    with Some show ?thesis by simp
  qed
  show s: "sockets (connect promptId workflowId prompt' overrideParams m) =
           sockets m @ [\<lparr>ws_promptId = promptId, ws_workflowId = workflowId, ws_prompt = prompt',
                          ws_overrideParams = overrideParams, readyState = CONNECTING\<rparr>]"
    by (simp add: connect_def keep Let_def)
  have w: "wsMap (connect promptId workflowId prompt' overrideParams m) =
      AList.update promptId (length (sockets m)) (wsMap m)"
    by (simp add: connect_def keep Let_def)
  have "\<forall>(p, h) \<in> set (AList.update promptId (length (sockets m)) (wsMap m)).
      h < Suc (length (sockets m))"
    using r set_update_subset [of promptId "length (sockets m)" "wsMap m"] by fastforce
  with c show "all_connecting (connect promptId workflowId prompt' overrideParams m)"
    by (simp add: all_connecting_def list_all_iff s w)
qed

lemma fold_reconnect:
  "all_connecting m \<Longrightarrow>
   sockets (fold reconnect xs m) = sockets m @ map socket_of (filter resumable xs) \<and>
   all_connecting (fold reconnect xs m)"
proof (induction xs arbitrary: m)
  case Nil
  then show ?case by simp
next
  case (Cons x xs)
  show ?case
  proof (cases "resumable x")
    case True
    let ?m = "connect (gen_id x) (gen_workflow_id x) (gen_prompt x) (override_params x) m"
    have s: "sockets ?m = sockets m @ [socket_of x]" and a: "all_connecting ?m"
      using connect_all_connecting [OF Cons.prems] by (simp_all add: socket_of_def)
    from Cons.IH [OF a] True s show ?thesis by (simp add: reconnect_def)
  next
    case False
    with Cons.IH [OF Cons.prems] show ?thesis by (simp add: reconnect_def)
  qed
qed

lemma filter_same_key:
  "distinct (map f xs) \<Longrightarrow> x \<in> set xs \<Longrightarrow> filter (\<lambda>y. f y = f x) xs = [x]"
proof (induction xs)
  case Nil
  then show ?case by simp
next
  case (Cons a xs)
  show ?case
  proof (cases "a = x")
    case True
    with Cons.prems have "f x \<notin> f ` set xs" by simp
    then have "\<forall>y \<in> set xs. f y \<noteq> f x" by (metis imageI)
    then have "filter (\<lambda>y. f y = f x) xs = []" by (simp add: filter_empty_conv)
    with True show ?thesis by simp
  next
    case False
    with Cons.prems have "x \<in> set xs" "f a \<noteq> f x" "distinct (map f xs)" by auto
    with Cons.IH show ?thesis by simp
  qed
qed

lemma filter_no_key:
  "distinct (map f xs) \<Longrightarrow> x \<in> set xs \<Longrightarrow> \<not> P x \<Longrightarrow>
   filter (\<lambda>y. f y = f x) (filter P xs) = []"
proof -
  assume d: "distinct (map f xs)" and x: "x \<in> set xs" and n: "\<not> P x"
  have "filter (\<lambda>y. f y = f x) (filter P xs) = filter P (filter (\<lambda>y. f y = f x) xs)"
    by (simp add: conj_commute)
  also have "\<dots> = filter P [x]" using filter_same_key [OF d x] by simp
  finally show ?thesis using n by simp
qed

text \<open>The placeholder that the local launcher creates carries the clock value.\<close>

lemma localGenerate_timestamp:
  assumes "workflowId \<noteq> []" and "res_status response \<noteq> ''failed''"
  shows "map timestamp
           (generatingImages
              (fst (localGenerate workflows now overrideParams workflowId prompt' (Inr response) s))) =
         Some now # map timestamp (generatingImages s)"
  using assms by (simp add: localGenerate_def Let_def)

lemma onGenerationStart_timestamp:
  "map timestamp (generatingImages (onGenerationStart (g\<lparr>timestamp := Some now\<rparr>) s)) =
   Some now # map timestamp (generatingImages s)"
  by (simp add: onGenerationStart_def)

section \<open>Resuming at cold start: claims\<close>

text \<open>
  C3. At cold start, from a manager without sockets and a persisted snapshot as the
  launchers write it (both write \<open>timestamp: Date.now()\<close>, so no persisted timestamp is
  \<open>0\<close>): a persisted job is dropped exactly when its status is \<open>failed\<close> or its timestamp
  is more than one hour old, and the placeholders shown are the other jobs, in order. The
  sockets created are, in order, one connecting socket for each job that stays and is
  \<open>processing\<close> or \<open>queued\<close>, with the id of the job: for every id there are as many
  channels as such jobs of that id, and no channel is opened for a job that is dropped.
  Nothing is reported: the error banner and the log of requests are unchanged.
  A snapshot of one \<open>processing\<close> job that is 10 minutes old gives that placeholder and
  exactly one channel, with its id; a snapshot of one \<open>processing\<close> job that is 2 hours old
  gives no placeholder and no channel.
\<close>

theorem cold_start_resume:
  assumes "saved = Some item" and "item \<noteq> []" and "JSON_parse item = Some parsed"
    and "\<forall>img \<in> set parsed. timestamp img \<noteq> Some 0"
  shows "generatingImages (snd (loadGeneratingImages JSON_parse now saved (manager_init, s))) =
           filter (\<lambda>img. \<not> (status img = ''failed'' \<or>
                              (\<exists>t. timestamp img = Some t \<and> t < now - 60 * 60 * 1000))) parsed \<and>
         sockets (fst (loadGeneratingImages JSON_parse now saved (manager_init, s))) =
           map socket_of
             (filter (\<lambda>img. status img = ''processing'' \<or> status img = ''queued'')
                (generatingImages
                   (snd (loadGeneratingImages JSON_parse now saved (manager_init, s))))) \<and>
         (\<forall>promptId.
            length (filter (\<lambda>ws. ws_promptId ws = promptId)
                      (sockets (fst (loadGeneratingImages JSON_parse now saved (manager_init, s))))) =
            length (filter (\<lambda>img. gen_id img = promptId \<and>
                                   (status img = ''processing'' \<or> status img = ''queued''))
                      (generatingImages
                         (snd (loadGeneratingImages JSON_parse now saved (manager_init, s)))))) \<and>
         error (snd (loadGeneratingImages JSON_parse now saved (manager_init, s))) = error s \<and>
         requests (snd (loadGeneratingImages JSON_parse now saved (manager_init, s))) = requests s \<and>
         (parsed = [job] \<and> status job = ''processing'' \<and>
          timestamp job = Some (now - 10 * 60 * 1000) \<longrightarrow>
            generatingImages (snd (loadGeneratingImages JSON_parse now saved (manager_init, s))) =
              [job] \<and>
            map ws_promptId
              (sockets (fst (loadGeneratingImages JSON_parse now saved (manager_init, s)))) =
              [gen_id job] \<and>
            map readyState
              (sockets (fst (loadGeneratingImages JSON_parse now saved (manager_init, s)))) =
              [CONNECTING]) \<and>
         (parsed = [job] \<and> status job = ''processing'' \<and>
          timestamp job = Some (now - 2 * 60 * 60 * 1000) \<longrightarrow>
            generatingImages (snd (loadGeneratingImages JSON_parse now saved (manager_init, s))) =
              [] \<and>
            sockets (fst (loadGeneratingImages JSON_parse now saved (manager_init, s))) = [])"
proof -
  let ?R = "loadGeneratingImages JSON_parse now saved (manager_init, s)"
  let ?kept = "\<lambda>img. \<not> (status img = ''failed'' \<or>
                              (\<exists>t. timestamp img = Some t \<and> t < now - 60 * 60 * 1000))"
  let ?res = "\<lambda>img. status img = ''processing'' \<or> status img = ''queued''"
  have R: "?R = (fold reconnect (filter (validImage now) parsed) manager_init,
                 s\<lparr>generatingImages := filter (validImage now) parsed\<rparr>)"
    using assms(1-3) by (simp add: loadGeneratingImages_def Let_def)
  have valid: "validImage now img \<longleftrightarrow> ?kept img" if "img \<in> set parsed" for img
  proof -
    from that assms(4) have "timestamp img \<noteq> Some 0" by blast
    then show ?thesis
      by (cases "timestamp img") (auto simp: validImage_def Let_def)
  qed
  have flt: "filter (validImage now) parsed = filter ?kept parsed"
    by (rule filter_cong) (simp_all add: valid)
  have gens: "generatingImages (snd ?R) = filter ?kept parsed"
    by (simp add: R flt)
  have init: "all_connecting manager_init"
    by (simp add: all_connecting_def manager_init_def)
  have res: "resumable = ?res"
    by (rule ext) (simp add: resumable_def)
  have "sockets (fold reconnect (filter (validImage now) parsed) manager_init) =
      map socket_of (filter resumable (filter (validImage now) parsed))"
    using fold_reconnect [OF init, of "filter (validImage now) parsed"]
    by (simp add: manager_init_def)
  then have "sockets (fst ?R) = map socket_of (filter resumable (filter (validImage now) parsed))"
    unfolding R fst_conv .
  then have socks: "sockets (fst ?R) = map socket_of (filter ?res (generatingImages (snd ?R)))"
    unfolding gens flt res .
  have count: "length (filter (\<lambda>ws. ws_promptId ws = promptId) (sockets (fst ?R))) =
      length (filter (\<lambda>img. gen_id img = promptId \<and> ?res img) (generatingImages (snd ?R)))"
    for promptId
    unfolding socks by (simp add: filter_map o_def socket_of_def conj_commute)
  have recent: "generatingImages (snd ?R) = [job] \<and>
      map ws_promptId (sockets (fst ?R)) = [gen_id job] \<and>
      map readyState (sockets (fst ?R)) = [CONNECTING]"
    if "parsed = [job]" and "status job = ''processing''"
      and "timestamp job = Some (now - 10 * 60 * 1000)"
  proof -
    have g: "generatingImages (snd ?R) = [job]"
      unfolding gens using that by simp
    show ?thesis
      unfolding socks unfolding g using that(2) by (simp add: socket_of_def)
  qed
  have old: "generatingImages (snd ?R) = [] \<and> sockets (fst ?R) = []"
    if "parsed = [job]" and "status job = ''processing''"
      and "timestamp job = Some (now - 2 * 60 * 60 * 1000)"
  proof -
    have g: "generatingImages (snd ?R) = []"
      unfolding gens using that by simp
    show ?thesis
      unfolding socks unfolding g by simp
  qed
  have quiet: "error (snd ?R) = error s" "requests (snd ?R) = requests s"
    by (simp_all add: R)
  show ?thesis
    apply (intro conjI allI impI)
            apply (rule gens)
           apply (rule socks)
          apply (rule count)
         apply (rule quiet(1))
        apply (rule quiet(2))
       apply (rule recent [THEN conjunct1], simp, simp, simp)
      apply (rule recent [THEN conjunct2, THEN conjunct1], simp, simp, simp)
     apply (rule recent [THEN conjunct2, THEN conjunct2], simp, simp, simp)
    apply (rule old [THEN conjunct1], simp, simp, simp)
    apply (rule old [THEN conjunct2], simp, simp, simp)
    done
qed

theorem cold_start_resume_witness:
  "generatingImages (snd (loadGeneratingImages parse_dated
       1700000000000 (Some ''stored'') (manager_init, app_empty))) = [job_recent] \<and>
   sockets (fst (loadGeneratingImages parse_dated
       1700000000000 (Some ''stored'') (manager_init, app_empty))) = [socket_of job_recent] \<and>
   filter (\<lambda>w. ws_promptId w = ''old'')
     (sockets (fst (loadGeneratingImages parse_dated
       1700000000000 (Some ''stored'') (manager_init, app_empty)))) = []"
  using cold_start_resume
    [of "Some ''stored''" "''stored''" parse_dated
        "[job_recent, job_old]" 1700000000000 app_empty]
  by (simp add: parse_dated_def job_recent_def job_old_def job1_def validImage_def resumable_def
      socket_of_def Let_def)

section \<open>Persistence: claims\<close>

text \<open>
  C4. The hook writes the tracked value in its effect, which React runs after the render
  that shows the new value. For the list of placeholders no debounce is configured, so
  once the hook is mounted the run of the effect after an update writes at once, and,
  when \<open>setItem\<close> does not throw, the persisted snapshot then is the serialisation of
  the list in memory and no timer is pending. Before that run the storage is what it was
  before the update: it matches the new list only if it already held that snapshot. The
  run of the effect at the mount writes nothing.
\<close>

theorem persisted_by_effect:
  assumes "\<not> isInitialMount h"
    and "setItem localStorage key (serialize v) = Some (localStorage(key \<mapsto> serialize v))"
  shows "in_sync serialize key
           (hook_effect serialize setItem key None (setValue v h, localStorage)) \<and>
         val (fst (hook_effect serialize setItem key None (setValue v h, localStorage))) = v \<and>
         debounceTimer (fst (hook_effect serialize setItem key None (setValue v h, localStorage))) =
           None \<and>
         (in_sync serialize key (setValue v h, localStorage) \<longleftrightarrow>
            localStorage key = Some (serialize v)) \<and>
         snd (hook_effect serialize setItem key debounce
                (hook_init parse_item key initialValue localStorage, localStorage)) = localStorage"
  using assms
  by (simp add: in_sync_def hook_effect_def setValue_def saveToLocalStorage_def hook_init_def)

theorem persisted_by_effect_witness:
  "in_sync stringify ''generatingImages''
     (hook_effect stringify setItem_ok ''generatingImages'' None
        (setValue [job1] (fst mounted), snd mounted)) \<and>
   snd (hook_effect stringify setItem_ok ''generatingImages'' None
        (setValue [job1] (fst mounted), snd mounted)) ''generatingImages'' =
     Some ''[{job1:queued}]''"
  using persisted_by_effect
    [of "fst mounted" setItem_ok "snd mounted" "''generatingImages''" stringify "[job1]"]
  by (simp add: mounted_def hook_effect_def hook_init_def setItem_ok_def storage0_def
      in_sync_def setValue_def saveToLocalStorage_def stringify_def job1_def)

text \<open>
  C4 as stated fails between the update and the effect: the mounted hook is in step with
  the storage, and after \<open>setValue\<close> with a list of one placeholder the storage still
  holds the snapshot of the empty list.
\<close>

theorem write_through_counterexample:
  "in_sync stringify ''generatingImages'' mounted \<and>
   val (setValue [job1] (fst mounted)) = [job1] \<and>
   snd mounted ''generatingImages'' = Some ''[]'' \<and>
   \<not> in_sync stringify ''generatingImages'' (setValue [job1] (fst mounted), snd mounted)"
  by (simp add: mounted_def hook_effect_def hook_init_def storage0_def in_sync_def
      setValue_def stringify_def job1_def)

end
